theory Spec2Isabelle
  imports Main "HOL-Library.Word" "HOL-Library.Multiset"
begin

section \<open>Strings\<close>

text \<open>
  A JavaScript string is a sequence of UTF-16 code units. Titles come from a text input
  and may hold any of them; the error messages are ASCII literals of the source, written
  here as \<open>ascii ''...''\<close>.
\<close>

type_synonym js_string = "16 word list"

definition ascii :: "string \<Rightarrow> js_string" where
  "ascii cs = map (\<lambda>c. of_nat (of_char c)) cs"

text \<open>
  \<open>String.prototype.trim\<close> strips, from both ends, the code units that ECMAScript
  calls WhiteSpace (TAB, VT, FF, SP, NBSP, ZWNBSP and the space separators of Unicode)
  or LineTerminator (LF, CR, LS, PS). All of them lie in the basic plane, so the test is
  one on single code units.
\<close>

definition isWhiteSpace :: "16 word \<Rightarrow> bool" where
  "isWhiteSpace c \<longleftrightarrow>
     c = 0x0009 \<or> c = 0x000A \<or> c = 0x000B \<or> c = 0x000C \<or> c = 0x000D \<or>
     c = 0x0020 \<or> c = 0x00A0 \<or> c = 0x1680 \<or> (0x2000 \<le> c \<and> c \<le> 0x200A) \<or>
     c = 0x2028 \<or> c = 0x2029 \<or> c = 0x202F \<or> c = 0x205F \<or> c = 0x3000 \<or>
     c = 0xFEFF"

definition trim :: "js_string \<Rightarrow> js_string" where
  "trim s = rev (dropWhile isWhiteSpace (rev (dropWhile isWhiteSpace s)))"

section \<open>Data model\<close>

text \<open>
  Modelled from the spec: the declaration of \<open>Todo\<close> (types/Todo) is not among the
  sources. The fields are those of the data model of the specification, which are also
  the ones the code reads and writes: \<open>id\<close> (here \<open>id'\<close>), \<open>userId\<close>, \<open>title\<close>,
  \<open>completed\<close> and the local, optional \<open>loading\<close>. A record that came from the
  server carries no \<open>loading\<close> field; that is \<open>None\<close>. Identifiers are the integers
  the server assigns.
\<close>

record todo =
  id' :: int
  userId :: int
  title :: js_string
  completed :: bool
  loading :: "bool option"

text \<open>\<open>Partial<Todo>\<close>, the data of an update request: every field may be absent.\<close>

record todo_partial =
  p_id :: "int option"
  p_userId :: "int option"
  p_title :: "js_string option"
  p_completed :: "bool option"
  p_loading :: "bool option"

definition no_fields :: todo_partial where
  "no_fields = \<lparr>p_id = None, p_userId = None, p_title = None, p_completed = None,
     p_loading = None\<rparr>"

text \<open>The object \<open>newTodo\<close> that \<open>addTodo\<close> sends: a todo without \<open>id\<close>.\<close>

record new_todo =
  n_userId :: int
  n_title :: js_string
  n_completed :: bool

text \<open>
  Modelled from the spec: the enumeration \<open>TodoFilterOptions\<close> (types/TodoFiltersOptions)
  is not among the sources; the specification gives its three modes (\<open>All\<close> is
  here \<open>All'\<close>).
\<close>

datatype TodoFilterOptions = All' | Active | Completed

text \<open>The state of the \<open>App\<close> component, one field for each \<open>useState\<close>.\<close>

record app_state =
  todos :: "todo list"
  tempTodo :: "todo option"
  error :: js_string
  todoFilterValue :: TodoFilterOptions

section \<open>The remote service\<close>

text \<open>
  The functions of api/todos return promises. A promise that settles is either fulfilled
  with a value or rejected with a reason; the reason is any value, hence the type
  parameter. The requests a flow issues are recorded, so that "no request" can be
  stated.
\<close>

datatype ('e, 'a) settled = Fulfilled 'a | Rejected 'e

datatype request =
    PostTodo new_todo
  | PatchTodo int todo_partial
  | DeleteTodo int

fun isRejected :: "('e, 'a) settled \<Rightarrow> bool" where
  "isRejected (Rejected e) = True"
| "isRejected (Fulfilled x) = False"

text \<open>
  What a flow has done once its promise has settled: the requests it issued, the state
  it left, and how its own promise settled.
\<close>

record 'e flow_result =
  requests :: "request list"
  state :: app_state
  outcome :: "('e, unit) settled"

section \<open>Derived collections\<close>

definition filterTodos :: "todo list \<Rightarrow> TodoFilterOptions \<Rightarrow> todo list" where
  "filterTodos todosForFilter statusFilterValue =
     filter (\<lambda>todo. case statusFilterValue of
                       Active \<Rightarrow> \<not> completed todo
                     | Completed \<Rightarrow> completed todo
                     | All' \<Rightarrow> True) todosForFilter"

definition filteredTodos :: "app_state \<Rightarrow> todo list" where
  "filteredTodos s = filterTodos (todos s) (todoFilterValue s)"

definition uncompletedTodos :: "app_state \<Rightarrow> todo list" where
  "uncompletedTodos s = filter (\<lambda>todo. \<not> completed todo) (todos s)"

definition completedTodos :: "app_state \<Rightarrow> todo list" where
  "completedTodos s = filter (\<lambda>todo. completed todo) (todos s)"

section \<open>Add\<close>

text \<open>
  \<open>addTodo title\<close>, with \<open>USER_ID\<close> (a constant of api/todos, not among the sources)
  as the parameter \<open>uid\<close> and the way the create request settles as the parameter
  \<open>r\<close>; \<open>r\<close> is not looked at when no request is issued.
\<close>

definition addTodo ::
  "int \<Rightarrow> js_string \<Rightarrow> ('e, todo) settled \<Rightarrow> app_state \<Rightarrow> 'e flow_result" where
  "addTodo uid ttl r s =
     (let newTodoTitle = trim ttl in
      if newTodoTitle = [] then
        \<lparr>requests = [],
         state = s\<lparr>error := ascii ''Title should not be empty''\<rparr>,
         outcome = Fulfilled ()\<rparr>
      else
        let newTodo = \<lparr>n_userId = uid, n_title = newTodoTitle, n_completed = False\<rparr>;
            s1 = s\<lparr>tempTodo := Some \<lparr>id' = 0, userId = n_userId newTodo,
                     title = n_title newTodo, completed = n_completed newTodo,
                     loading = None\<rparr>\<rparr>
        in case r of
             Fulfilled response \<Rightarrow>
               \<lparr>requests = [PostTodo newTodo],
                state = s1\<lparr>todos := todos s1 @ [response], error := [],
                          tempTodo := None\<rparr>,
                outcome = Fulfilled ()\<rparr>
           | Rejected err \<Rightarrow>
               \<lparr>requests = [PostTodo newTodo],
                state = s1\<lparr>error := ascii ''Unable to add a todo'', tempTodo := None\<rparr>,
                outcome = Rejected err\<rparr>)"

section \<open>Update\<close>

text \<open>
  \<open>updateTodo todoId data\<close>: the request is issued at once; \<open>r\<close> is the way it
  settles. The \<open>then\<close> handler replaces, by the identifier of the response, the
  matching todos; the \<open>catch\<close> handler sets the error and rejects with the same reason.
\<close>

definition updateTodo ::
  "int \<Rightarrow> todo_partial \<Rightarrow> ('e, todo) settled \<Rightarrow> app_state \<Rightarrow> 'e flow_result" where
  "updateTodo todoId data r s =
     (case r of
        Fulfilled response \<Rightarrow>
          \<lparr>requests = [PatchTodo todoId data],
           state = s\<lparr>todos := map (\<lambda>todo. if id' todo = id' response then response else todo)
                                  (todos s)\<rparr>,
           outcome = Fulfilled ()\<rparr>
      | Rejected err \<Rightarrow>
          \<lparr>requests = [PatchTodo todoId data],
           state = s\<lparr>error := ascii ''Unable to update a todo''\<rparr>,
           outcome = Rejected err\<rparr>)"

section \<open>Delete\<close>

definition removeTodo ::
  "int \<Rightarrow> ('e, unit) settled \<Rightarrow> app_state \<Rightarrow> 'e flow_result" where
  "removeTodo todoId r s =
     (case r of
        Fulfilled _ \<Rightarrow>
          \<lparr>requests = [DeleteTodo todoId],
           state = s\<lparr>todos := filter (\<lambda>todo. id' todo \<noteq> todoId) (todos s), error := []\<rparr>,
           outcome = Fulfilled ()\<rparr>
      | Rejected err \<Rightarrow>
          \<lparr>requests = [DeleteTodo todoId],
           state = s\<lparr>error := ascii ''Unable to delete a todo''\<rparr>,
           outcome = Rejected err\<rparr>)"

section \<open>Bulk flows\<close>

text \<open>
  A bulk flow issues all its requests at once and waits with \<open>Promise.allSettled\<close>.
  The requests settle in an order the network chooses, and the handlers of the single
  flows run in that order, each on the state the previous one left. The list \<open>settles\<close>
  names, in the order of settling, the identifier a request was issued for and the way
  that request settled; \<open>handler\<close> is the single flow behind each promise.
  \<open>allSettled\<close> returns the state after the last handler and the outcomes of the
  promises. (The array JavaScript builds is in the order of the requests; the flows
  only count its rejected entries.)
\<close>

fun allSettled ::
  "(int \<Rightarrow> 'r \<Rightarrow> app_state \<Rightarrow> 'e flow_result) \<Rightarrow> (int \<times> 'r) list \<Rightarrow> app_state \<Rightarrow>
     app_state \<times> ('e, unit) settled list" where
  "allSettled handler [] s = (s, [])"
| "allSettled handler ((todoId, r) # settles) s =
     (let res = handler todoId r s;
          (s', results) = allSettled handler settles (state res)
      in (s', outcome res # results))"

text \<open>Every request that was issued settles exactly once.\<close>

definition answers :: "(int \<times> 'r) list \<Rightarrow> int list \<Rightarrow> bool" where
  "answers settles ids \<longleftrightarrow> mset (map fst settles) = mset ids"

subsection \<open>Toggle all\<close>

definition toggleValue :: "app_state \<Rightarrow> bool" where
  "toggleValue s \<longleftrightarrow> uncompletedTodos s \<noteq> []"

text \<open>The first \<open>map\<close> of \<open>toggleAllTodos\<close>, which marks the todos to be toggled.\<close>

definition updatedTodos :: "bool \<Rightarrow> todo list \<Rightarrow> todo list" where
  "updatedTodos v ts =
     map (\<lambda>todo. if completed todo \<noteq> v then todo\<lparr>loading := Some True\<rparr> else todo) ts"

text \<open>The updater of the last \<open>setTodos\<close> in the \<open>try\<close> block.\<close>

definition reconciled :: "bool \<Rightarrow> todo list \<Rightarrow> todo list" where
  "reconciled v prevTodos =
     map (\<lambda>todo. todo\<lparr>completed := (if completed todo \<noteq> v then v else completed todo),
                       loading := Some False\<rparr>) prevTodos"

text \<open>
  \<open>toggleAllTodos\<close>, called in state \<open>s\<close> (the \<open>todos\<close> and \<open>uncompletedTodos\<close> of its
  closure are those of the render it was created in). Nothing in the \<open>try\<close> block
  throws: the functions of api/todos return promises, \<open>updateTodo\<close> turns a rejection
  into a rejected promise, and \<open>Promise.allSettled\<close> never rejects. The \<open>catch\<close>
  clause is therefore never entered and has no branch here.
\<close>

definition toggleAllTodos ::
  "(int \<times> ('e, todo) settled) list \<Rightarrow> app_state \<Rightarrow> 'e flow_result" where
  "toggleAllTodos settles s =
     (if todos s = [] then \<lparr>requests = [], state = s, outcome = Fulfilled ()\<rparr>
      else
        let v = toggleValue s;
            s1 = s\<lparr>todos := updatedTodos v (todos s)\<rparr>;
            todosToToggle = filter (\<lambda>todo. completed todo \<noteq> v) (todos s);
            data = no_fields\<lparr>p_completed := Some v\<rparr>;
            (s2, results) = allSettled (\<lambda>todoId. updateTodo todoId data) settles s1;
            rejectedTodos = filter isRejected results;
            s3 = (if rejectedTodos \<noteq> []
                  then s2\<lparr>error := ascii ''Some todos could not be updated''\<rparr> else s2);
            s4 = s3\<lparr>todos := reconciled v (todos s3)\<rparr>
        in \<lparr>requests = map (\<lambda>todo. PatchTodo (id' todo) data) todosToToggle,
            state = s4,
            outcome = Fulfilled ()\<rparr>)"

subsection \<open>Clear completed\<close>

definition removeCompletedTodos ::
  "(int \<times> ('e, unit) settled) list \<Rightarrow> app_state \<Rightarrow> 'e flow_result" where
  "removeCompletedTodos settles s =
     (if completedTodos s = [] then \<lparr>requests = [], state = s, outcome = Fulfilled ()\<rparr>
      else
        let (s1, results) = allSettled removeTodo settles s;
            rejectedTodos = filter isRejected results;
            s2 = (if rejectedTodos \<noteq> []
                  then s1\<lparr>error := ascii ''Some todos could not be deleted''\<rparr> else s1)
        in \<lparr>requests = map (\<lambda>todo. DeleteTodo (id' todo)) (completedTodos s),
            state = s2,
            outcome = Fulfilled ()\<rparr>)"

section \<open>The item component\<close>

text \<open>The local state of a \<open>TodoItem\<close>, one field for each \<open>useState\<close>.\<close>

record item_state =
  editable :: bool
  visible :: bool
  loading' :: bool
  editableTodoTitleValue :: js_string

text \<open>
  The handlers of the item that shows \<open>todo\<close>, with the \<open>updateTodo\<close> and
  \<open>removeTodo\<close> of the application as \<open>onUpdate\<close> and \<open>onDelete\<close> (that is what
  \<open>TodoList\<close> passes). Each returns the requests issued, the state of the application
  and the state of the item once the promise has settled and its handlers have run.
  Moving the focus to the input field leaves both states as they are.
\<close>

definition handleDeleteTodoButtonClick ::
  "todo \<Rightarrow> ('e, unit) settled \<Rightarrow> app_state \<times> item_state \<Rightarrow>
     request list \<times> app_state \<times> item_state" where
  "handleDeleteTodoButtonClick todo r = (\<lambda>(s, it).
     let it1 = it\<lparr>loading' := True\<rparr>;
         res = removeTodo (id' todo) r s;
         it2 = it1\<lparr>loading' := False\<rparr>
     in (requests res, state res, it2))"

definition handleEditTodoFormSubmit ::
  "todo \<Rightarrow> ('e, todo) settled \<Rightarrow> ('e, unit) settled \<Rightarrow> app_state \<times> item_state \<Rightarrow>
     request list \<times> app_state \<times> item_state" where
  "handleEditTodoFormSubmit todo r_update r_delete = (\<lambda>(s, it).
     let trimmedTitle = trim (editableTodoTitleValue it);
         it1 = it\<lparr>editableTodoTitleValue := trimmedTitle\<rparr>
     in if trimmedTitle = title todo then ([], s, it1\<lparr>editable := False\<rparr>)
        else if trimmedTitle = [] then handleDeleteTodoButtonClick todo r_delete (s, it1)
        else
          let it2 = it1\<lparr>loading' := True\<rparr>;
              res = updateTodo (id' todo) (no_fields\<lparr>p_title := Some trimmedTitle\<rparr>) r_update s;
              it3 = (case outcome res of
                       Fulfilled _ \<Rightarrow> it2\<lparr>editable := False\<rparr>
                     | Rejected _ \<Rightarrow> it2\<lparr>editable := True\<rparr>);
              it4 = it3\<lparr>loading' := False\<rparr>
          in (requests res, state res, it4))"

definition handleTodoStatusChange ::
  "todo \<Rightarrow> ('e, todo) settled \<Rightarrow> app_state \<times> item_state \<Rightarrow>
     request list \<times> app_state \<times> item_state" where
  "handleTodoStatusChange todo r = (\<lambda>(s, it).
     let it1 = it\<lparr>loading' := True\<rparr>;
         res = updateTodo (id' todo) (no_fields\<lparr>p_completed := Some (\<not> completed todo)\<rparr>) r s;
         it2 = it1\<lparr>loading' := False\<rparr>
     in (requests res, state res, it2))"

section \<open>The error timer\<close>

text \<open>
  The timeouts of the page: \<open>setTimeout\<close> adds a pending timeout under a fresh handle
  and returns the handle; \<open>clearTimeout\<close> removes the timeout of a handle, if it is
  still pending. Nothing else removes a timeout but its firing. The only callback the
  source ever schedules is \<open>() => setError('')\<close>, so a pending timeout is its handle
  and the instant at which it fires. Time is counted in milliseconds.

  \<open>cleanup\<close> is the function the last run of the effect on \<open>[error]\<close> returned:
  \<open>Some timer\<close> for \<open>() => clearTimeout(timer)\<close>, \<open>None\<close> for \<open>undefined\<close>.
\<close>

record timed_state =
  app :: app_state
  timers :: "(nat \<times> nat) list"
  nextTimer :: nat
  cleanup :: "nat option"
  now :: nat

definition setTimeout :: "nat \<Rightarrow> timed_state \<Rightarrow> nat \<times> timed_state" where
  "setTimeout delay ts =
     (nextTimer ts,
      ts\<lparr>timers := timers ts @ [(nextTimer ts, now ts + delay)],
         nextTimer := nextTimer ts + 1\<rparr>)"

definition clearTimeout :: "nat \<Rightarrow> timed_state \<Rightarrow> timed_state" where
  "clearTimeout timer ts = ts\<lparr>timers := filter (\<lambda>(h, t). h \<noteq> timer) (timers ts)\<rparr>"

text \<open>The body of the effect, which leaves its cleanup behind.\<close>

definition errorEffect :: "timed_state \<Rightarrow> timed_state" where
  "errorEffect ts =
     (if error (app ts) \<noteq> [] then
        let (timer, ts') = setTimeout 3000 ts in ts'\<lparr>cleanup := Some timer\<rparr>
      else ts\<lparr>cleanup := None\<rparr>)"

text \<open>React calls the cleanup of the last run before it runs the effect again.\<close>

definition runCleanup :: "timed_state \<Rightarrow> timed_state" where
  "runCleanup ts = (case cleanup ts of None \<Rightarrow> ts | Some timer \<Rightarrow> clearTimeout timer ts)"

text \<open>
  A call \<open>setError msg\<close>, by a flow or by a timeout. When \<open>msg\<close> is the text the state
  holds already, the dependency \<open>[error]\<close> has not changed and React runs neither the
  cleanup nor the effect. Otherwise the component renders with the new text and React
  runs the cleanup and then the effect; both are taken to happen at the instant of the
  call.
\<close>

definition setError :: "js_string \<Rightarrow> timed_state \<Rightarrow> timed_state" where
  "setError msg ts =
     (if msg = error (app ts) then ts
      else errorEffect (runCleanup (ts\<lparr>app := (app ts)\<lparr>error := msg\<rparr>\<rparr>)))"

text \<open>
  A timeout fires, at the instant it was set for, if it is still pending then: it
  leaves the pending timeouts and its callback calls \<open>setError('')\<close>.
\<close>

definition fire :: "nat \<times> nat \<Rightarrow> timed_state \<Rightarrow> timed_state" where
  "fire x ts =
     (if x \<in> set (timers ts)
      then setError [] (ts\<lparr>timers := removeAll x (timers ts), now := snd x\<rparr>)
      else ts)"

text \<open>
  \<open>d\<close> milliseconds pass in which no flow calls \<open>setError\<close>. The timeouts due within
  that time fire in the order of their instants (and, at the same instant, in the order
  in which they were set). A callback sets no timeout, so only timeouts pending at the
  start can fire, and one that an earlier callback has cleared does not.
\<close>

definition elapse :: "nat \<Rightarrow> timed_state \<Rightarrow> timed_state" where
  "elapse d ts =
     (fold fire (sort_key snd (filter (\<lambda>(h, t). t \<le> now ts + d) (timers ts))) ts)
       \<lparr>now := now ts + d\<rparr>"

text \<open>The component after its first render: no todos, no error, no timeout.\<close>

definition mounted :: timed_state where
  "mounted = \<lparr>app = \<lparr>todos = [], tempTodo = None, error = [], todoFilterValue = All'\<rparr>,
              timers = [], nextTimer = 0, cleanup = None, now = 0\<rparr>"

text \<open>What happens to the component: calls of \<open>setError\<close> by the flows, and time passing.\<close>

datatype event = SetError js_string | Elapse nat

fun step :: "event \<Rightarrow> timed_state \<Rightarrow> timed_state" where
  "step (SetError msg) ts = setError msg ts"
| "step (Elapse d) ts = elapse d ts"

definition run :: "event list \<Rightarrow> timed_state" where
  "run evs = fold step evs mounted"

text \<open>
  The timeouts that are pending belong to the message that is shown: none when there
  is no message; otherwise exactly the one the cleanup will clear, and it fires later
  than now and at most 3000 ms from now.
\<close>

definition timer_invariant :: "timed_state \<Rightarrow> bool" where
  "timer_invariant ts \<longleftrightarrow>
     (case cleanup ts of
        None \<Rightarrow> error (app ts) = [] \<and> timers ts = []
      | Some timer \<Rightarrow>
          error (app ts) \<noteq> [] \<and>
          (case timers ts of
             [(h, t)] \<Rightarrow> h = timer \<and> now ts < t \<and> t \<le> now ts + 3000
           | _ \<Rightarrow> False))"

section \<open>Example states\<close>

text \<open>The collection of the scenarios of the specification, and variations of it.\<close>

definition todo_a :: todo where
  "todo_a = \<lparr>id' = 1, userId = 7, title = ascii ''a'', completed = False, loading = None\<rparr>"

definition todo_b :: todo where
  "todo_b = \<lparr>id' = 2, userId = 7, title = ascii ''b'', completed = True, loading = None\<rparr>"

definition todo_c :: todo where
  "todo_c = \<lparr>id' = 3, userId = 7, title = ascii ''c'', completed = True, loading = None\<rparr>"

definition state_of :: "todo list \<Rightarrow> app_state" where
  "state_of ts = \<lparr>todos = ts, tempTodo = None, error = [], todoFilterValue = All'\<rparr>"

definition item_idle :: item_state where
  "item_idle = \<lparr>editable = False, visible = True, loading' = False,
                editableTodoTitleValue = ascii ''a''\<rparr>"

section \<open>Properties\<close>

subsection \<open>Auxiliary facts\<close>

lemma all_dropWhile: "(\<forall>x \<in> set (dropWhile P xs). P x) \<longleftrightarrow> (\<forall>x \<in> set xs. P x)"
  by (induction xs) auto

lemma trim_Nil_iff: "trim s = [] \<longleftrightarrow> (\<forall>c \<in> set s. isWhiteSpace c)"
  by (simp add: trim_def all_dropWhile)

lemma set_reconciled:
  "todo \<in> set (reconciled v ts) \<Longrightarrow> completed todo = v \<and> loading todo = Some False"
  by (auto simp: reconciled_def split: if_splits)

lemma answers_set: "answers settles ids \<Longrightarrow> fst ` set settles = set ids"
  unfolding answers_def by (metis mset_eq_setD set_map)

text \<open>
  When every deletion succeeds, the handlers together remove the todos whose identifier
  was asked for, whatever the order, and no promise is rejected.
\<close>

lemma allSettled_removeTodo_fulfilled:
  "\<forall>x \<in> set settles. \<not> isRejected (snd x) \<Longrightarrow>
     allSettled removeTodo settles s = (s', results) \<Longrightarrow>
     todos s' = filter (\<lambda>todo. id' todo \<notin> fst ` set settles) (todos s) \<and>
     filter isRejected results = []"
proof (induction settles arbitrary: s s' results)
  case Nil
  then show ?case by simp
next
  case (Cons x settles)
  obtain todoId r where x: "x = (todoId, r)" by (cases x)
  from Cons.prems(1) x obtain u where r: "r = Fulfilled u"
    by (cases r) auto
  obtain s1 rs where
    rest: "allSettled removeTodo settles (state (removeTodo todoId r s)) = (s1, rs)"
    by (cases "allSettled removeTodo settles (state (removeTodo todoId r s))")
  from Cons.prems(2) x rest have s': "s' = s1"
    and results: "results = outcome (removeTodo todoId r s) # rs"
    by (simp_all add: Let_def)
  from Cons.prems(1) have "\<forall>x \<in> set settles. \<not> isRejected (snd x)" by simp
  from Cons.IH [OF this rest]
  have IH: "todos s1 = filter (\<lambda>todo. id' todo \<notin> fst ` set settles)
                         (todos (state (removeTodo todoId r s)))"
    and nil: "filter isRejected rs = []" by simp_all
  have "todos (state (removeTodo todoId r s)) = filter (\<lambda>todo. id' todo \<noteq> todoId) (todos s)"
    by (simp add: removeTodo_def r)
  with IH have "todos s1 = filter (\<lambda>todo. id' todo \<notin> fst ` set (x # settles)) (todos s)"
    by (simp add: x conj_commute)
  moreover have "filter isRejected results = []"
    using nil by (simp add: results removeTodo_def r)
  ultimately show ?case by (simp add: s')
qed

subsection \<open>Toggle all\<close>

text \<open>
  Claim C1. On a collection that is not empty, the target of the toggle-all flow is true
  exactly when some todo is uncompleted; the flow asks for that value in every request
  it issues; and once it has settled, every todo has \<open>completed\<close> equal to the target
  and \<open>loading\<close> false, whichever requests settled and however (\<open>settles\<close> is
  arbitrary, so any number of them may have failed).
\<close>

theorem toggleAllTodos_reaches_target:
  "todos s \<noteq> [] \<Longrightarrow>
     (toggleValue s \<longleftrightarrow> (\<exists>todo \<in> set (todos s). \<not> completed todo)) \<and>
     requests (toggleAllTodos settles s) =
       map (\<lambda>todo. PatchTodo (id' todo) (no_fields\<lparr>p_completed := Some (toggleValue s)\<rparr>))
         (filter (\<lambda>todo. completed todo \<noteq> toggleValue s) (todos s)) \<and>
     (\<forall>todo \<in> set (todos (state (toggleAllTodos settles s))).
        completed todo = toggleValue s \<and> loading todo = Some False)"
  by (auto simp: toggleAllTodos_def Let_def toggleValue_def uncompletedTodos_def
      filter_empty_conv split: prod.splits dest: set_reconciled)

theorem toggleAllTodos_reaches_target_witness:
  "todos (state_of [todo_a, todo_b]) \<noteq> [] \<and>
   toggleValue (state_of [todo_a, todo_b]) \<and>
   requests (toggleAllTodos [(1, Rejected ())] (state_of [todo_a, todo_b])) =
     [PatchTodo 1 (no_fields\<lparr>p_completed := Some True\<rparr>)] \<and>
   todos (state (toggleAllTodos [(1, Rejected ())] (state_of [todo_a, todo_b]))) =
     [todo_a\<lparr>completed := True, loading := Some False\<rparr>, todo_b\<lparr>loading := Some False\<rparr>]"
  using toggleAllTodos_reaches_target [of "state_of [todo_a, todo_b]" "[(1, Rejected ())]"]
  by (simp add: toggleAllTodos_def Let_def toggleValue_def uncompletedTodos_def
      updatedTodos_def reconciled_def updateTodo_def state_of_def todo_a_def todo_b_def)

text \<open>
  The scenario of the specification: on the collection of an uncompleted todo 1 and a
  completed todo 2 the flow asks the server to complete todo 1 and leaves both completed;
  run again on that collection, it asks to reactivate both and leaves both uncompleted.
  The server answers with the record as updated.
\<close>

lemma toggleAllTodos_scenario:
  "map completed (todos (state (toggleAllTodos
      [(1, Fulfilled (todo_a\<lparr>completed := True\<rparr>) :: (nat, todo) settled)]
      (state_of [todo_a, todo_b])))) = [True, True] \<and>
   map completed (todos (state (toggleAllTodos
      [(2, Fulfilled (todo_b\<lparr>completed := False\<rparr>) :: (nat, todo) settled),
       (1, Fulfilled (todo_a\<lparr>completed := False\<rparr>))]
      (state_of [todo_a\<lparr>completed := True, loading := Some False\<rparr>,
                 todo_b\<lparr>loading := Some False\<rparr>])))) = [False, False]"
  by (simp add: toggleAllTodos_def Let_def toggleValue_def uncompletedTodos_def
      updatedTodos_def reconciled_def updateTodo_def state_of_def todo_a_def todo_b_def)

text \<open>
  Claim C10. The two maps of the toggle-all flow, the one that marks the todos to be
  toggled and the one that reconciles, keep the length and the order of the collection
  and, position by position, every field of a todo other than \<open>completed\<close> and
  \<open>loading\<close>: the identifier, the title and the user.
\<close>

theorem toggle_maps_frame:
  "length (reconciled v ts) = length ts \<and>
   map id' (reconciled v ts) = map id' ts \<and>
   map title (reconciled v ts) = map title ts \<and>
   map userId (reconciled v ts) = map userId ts \<and>
   map (\<lambda>todo. todo\<lparr>completed := c, loading := l\<rparr>) (reconciled v ts) =
     map (\<lambda>todo. todo\<lparr>completed := c, loading := l\<rparr>) ts \<and>
   length (updatedTodos v ts) = length ts \<and>
   map id' (updatedTodos v ts) = map id' ts \<and>
   map title (updatedTodos v ts) = map title ts \<and>
   map userId (updatedTodos v ts) = map userId ts \<and>
   map (\<lambda>todo. todo\<lparr>completed := c, loading := l\<rparr>) (updatedTodos v ts) =
     map (\<lambda>todo. todo\<lparr>completed := c, loading := l\<rparr>) ts"
  by (simp add: reconciled_def updatedTodos_def)

subsection \<open>Counts\<close>

text \<open>
  Claim C6. The number of uncompleted todos and the number of completed todos add up to
  the size of the collection, and neither list depends on the filter mode.
\<close>

theorem counts_partition:
  "length (uncompletedTodos s) + length (completedTodos s) = length (todos s) \<and>
   uncompletedTodos (s\<lparr>todoFilterValue := f\<rparr>) = uncompletedTodos s \<and>
   completedTodos (s\<lparr>todoFilterValue := f\<rparr>) = completedTodos s"
  by (simp add: uncompletedTodos_def completedTodos_def sum_length_filter_compl add.commute)

subsection \<open>Add\<close>

text \<open>
  Claim C2. When the trimmed title is empty, the add flow sets the error message to
  "Title should not be empty", issues no request and leaves the collection unchanged.
\<close>

theorem addTodo_empty_title:
  "trim ttl = [] \<Longrightarrow>
     error (state (addTodo uid ttl r s)) = ascii ''Title should not be empty'' \<and>
     requests (addTodo uid ttl r s) = [] \<and>
     todos (state (addTodo uid ttl r s)) = todos s"
  by (simp add: addTodo_def)

theorem addTodo_empty_title_witness:
  "trim (ascii ''  '') = [] \<and>
   error (state (addTodo 7 (ascii ''  '') (Rejected ()) (state_of [todo_a, todo_b]))) =
     ascii ''Title should not be empty'' \<and>
   requests (addTodo 7 (ascii ''  '') (Rejected ()) (state_of [todo_a, todo_b])) = [] \<and>
   todos (state (addTodo 7 (ascii ''  '') (Rejected ()) (state_of [todo_a, todo_b]))) =
     [todo_a, todo_b]"
  using addTodo_empty_title [of "ascii ''  ''" 7 "Rejected ()" "state_of [todo_a, todo_b]"]
  by (simp add: trim_def ascii_def isWhiteSpace_def state_of_def)

text \<open>
  Claim C3. When the create request of an add flow fails, the collection is as before
  (so is its length), the error is "Unable to add a todo", the promise of the flow is
  rejected with the reason of the request, and the placeholder is cleared; the
  placeholder is cleared as well when the request succeeds. A create request is issued
  when the trimmed title is not empty.
\<close>

theorem addTodo_failure:
  "trim ttl \<noteq> [] \<Longrightarrow>
     todos (state (addTodo uid ttl (Rejected err) s)) = todos s \<and>
     length (todos (state (addTodo uid ttl (Rejected err) s))) = length (todos s) \<and>
     error (state (addTodo uid ttl (Rejected err) s)) = ascii ''Unable to add a todo'' \<and>
     outcome (addTodo uid ttl (Rejected err) s) = Rejected err \<and>
     tempTodo (state (addTodo uid ttl (Rejected err) s)) = None \<and>
     tempTodo (state (addTodo uid ttl (Fulfilled response) s)) = None"
  by (simp add: addTodo_def)

theorem addTodo_failure_witness:
  "trim (ascii '' c '') \<noteq> [] \<and>
   requests (addTodo 7 (ascii '' c '') (Rejected (500::nat)) (state_of [todo_a, todo_b])) =
     [PostTodo \<lparr>n_userId = 7, n_title = ascii ''c'', n_completed = False\<rparr>] \<and>
   todos (state (addTodo 7 (ascii '' c '') (Rejected (500::nat)) (state_of [todo_a, todo_b]))) =
     [todo_a, todo_b] \<and>
   outcome (addTodo 7 (ascii '' c '') (Rejected (500::nat)) (state_of [todo_a, todo_b])) =
     Rejected 500 \<and>
   tempTodo (state (addTodo 7 (ascii '' c '') (Rejected (500::nat))
     (state_of [todo_a, todo_b]))) = None"
  using addTodo_failure [of "ascii '' c ''" 7 "500::nat" "state_of [todo_a, todo_b]" todo_c]
  by (simp add: addTodo_def trim_def ascii_def isWhiteSpace_def state_of_def)

text \<open>
  Claim C9. When the trimmed title is empty, the promise of the add flow is fulfilled,
  as it is after a successful add, so the two cannot be told apart by the promise; the
  promise is rejected only when a create request was issued and failed, and then with
  the reason of the request.
\<close>

theorem addTodo_outcome:
  "(trim ttl = [] \<longrightarrow> outcome (addTodo uid ttl r s) = Fulfilled ()) \<and>
   (trim ttl = [] \<longrightarrow>
      outcome (addTodo uid ttl r s) = outcome (addTodo uid' ttl' (Fulfilled response) s')) \<and>
   (outcome (addTodo uid ttl r s) = Rejected err \<longleftrightarrow> trim ttl \<noteq> [] \<and> r = Rejected err)"
  by (cases r) (simp_all add: addTodo_def Let_def)

theorem addTodo_outcome_witness:
  "trim (ascii ''  '') = [] \<and>
   outcome (addTodo 7 (ascii ''  '') (Rejected (500::nat)) (state_of [todo_a])) = Fulfilled () \<and>
   outcome (addTodo 7 (ascii ''c'') (Fulfilled todo_c) (state_of [todo_a])) = Fulfilled () \<and>
   outcome (addTodo 7 (ascii ''c'') (Rejected (500::nat)) (state_of [todo_a])) = Rejected 500"
  using addTodo_outcome [of "ascii ''  ''" 7 "Rejected (500::nat)" "state_of [todo_a]"
      7 "ascii ''c''" todo_c "state_of [todo_a]" 500]
    addTodo_outcome [of "ascii ''c''" 7 "Rejected (500::nat)" "state_of [todo_a]"
      7 "ascii ''c''" todo_c "state_of [todo_a]" 500]
  by (simp add: addTodo_def trim_def ascii_def isWhiteSpace_def)

subsection \<open>Update\<close>

text \<open>
  Claim C4. When the request of a single update fails, the collection is as before, the
  error is "Unable to update a todo", and the promise is rejected with the reason of the
  request. The item that asked for the update has its loading flag false once the flow has
  settled, and the application is in the state the update flow left: so it is for the
  checkbox, and for the edit form when the trimmed text is neither the old title nor
  empty (the cases in which the form asks for an update).
\<close>

theorem updateTodo_failure:
  "todos (state (updateTodo todoId data (Rejected err) s)) = todos s \<and>
   error (state (updateTodo todoId data (Rejected err) s)) = ascii ''Unable to update a todo'' \<and>
   outcome (updateTodo todoId data (Rejected err) s) = Rejected err \<and>
   snd (handleTodoStatusChange todo (Rejected err) (s, it)) =
     (state (updateTodo (id' todo) (no_fields\<lparr>p_completed := Some (\<not> completed todo)\<rparr>)
        (Rejected err) s),
      it\<lparr>loading' := False\<rparr>) \<and>
   loading' (snd (snd (handleTodoStatusChange todo (Rejected err) (s, it)))) = False \<and>
   (trim (editableTodoTitleValue it) \<noteq> title todo \<and> trim (editableTodoTitleValue it) \<noteq> [] \<longrightarrow>
      fst (snd (handleEditTodoFormSubmit todo (Rejected err) r_delete (s, it))) =
        state (updateTodo (id' todo)
          (no_fields\<lparr>p_title := Some (trim (editableTodoTitleValue it))\<rparr>) (Rejected err) s) \<and>
      loading' (snd (snd (handleEditTodoFormSubmit todo (Rejected err) r_delete (s, it)))) =
        False)"
  by (simp add: updateTodo_def handleTodoStatusChange_def handleEditTodoFormSubmit_def Let_def)

theorem updateTodo_failure_witness:
  "trim (editableTodoTitleValue (item_idle\<lparr>editableTodoTitleValue := ascii '' ab ''\<rparr>)) \<noteq>
     title todo_a \<and>
   trim (editableTodoTitleValue (item_idle\<lparr>editableTodoTitleValue := ascii '' ab ''\<rparr>)) \<noteq> [] \<and>
   handleEditTodoFormSubmit todo_a (Rejected (500::nat)) (Fulfilled ())
       (state_of [todo_a, todo_b],
        item_idle\<lparr>editable := True, editableTodoTitleValue := ascii '' ab ''\<rparr>) =
     ([PatchTodo 1 (no_fields\<lparr>p_title := Some (ascii ''ab'')\<rparr>)],
      (state_of [todo_a, todo_b])\<lparr>error := ascii ''Unable to update a todo''\<rparr>,
      item_idle\<lparr>editable := True, editableTodoTitleValue := ascii ''ab''\<rparr>) \<and>
   handleTodoStatusChange todo_a (Rejected (500::nat)) (state_of [todo_a, todo_b], item_idle) =
     ([PatchTodo 1 (no_fields\<lparr>p_completed := Some True\<rparr>)],
      (state_of [todo_a, todo_b])\<lparr>error := ascii ''Unable to update a todo''\<rparr>,
      item_idle)"
  using updateTodo_failure [of 1 "no_fields\<lparr>p_completed := Some True\<rparr>" "500::nat"
      "state_of [todo_a, todo_b]" todo_a
      "item_idle\<lparr>editable := True, editableTodoTitleValue := ascii '' ab ''\<rparr>" "Fulfilled ()"]
  by (simp add: updateTodo_def handleTodoStatusChange_def handleEditTodoFormSubmit_def Let_def
      trim_def ascii_def isWhiteSpace_def todo_a_def item_idle_def)

text \<open>
  Claim C8. A single update that succeeds leaves the error message as it was, whereas a
  delete that succeeds and an add that succeeds set it to the empty string.
\<close>

theorem updateTodo_success_keeps_error:
  "error (state (updateTodo todoId data (Fulfilled response) s)) = error s \<and>
   error (state (removeTodo todoId (Fulfilled ()) s)) = [] \<and>
   (trim ttl \<noteq> [] \<longrightarrow> error (state (addTodo uid ttl (Fulfilled response) s)) = [])"
  by (simp add: updateTodo_def removeTodo_def addTodo_def)

theorem updateTodo_success_keeps_error_witness:
  "trim (ascii ''c'') \<noteq> [] \<and>
   error (state (updateTodo 1 (no_fields\<lparr>p_completed := Some True\<rparr>)
     (Fulfilled (todo_a\<lparr>completed := True\<rparr>))
     ((state_of [todo_a])\<lparr>error := ascii ''Unable to delete a todo''\<rparr>))) =
     ascii ''Unable to delete a todo'' \<and>
   error (state (addTodo 7 (ascii ''c'') (Fulfilled (todo_a\<lparr>completed := True\<rparr>))
     ((state_of [todo_a])\<lparr>error := ascii ''Unable to delete a todo''\<rparr>))) = []"
  using updateTodo_success_keeps_error [of 1 "no_fields\<lparr>p_completed := Some True\<rparr>"
      "todo_a\<lparr>completed := True\<rparr>"
      "(state_of [todo_a])\<lparr>error := ascii ''Unable to delete a todo''\<rparr>" "ascii ''c''" 7]
  by (simp add: updateTodo_def addTodo_def trim_def ascii_def isWhiteSpace_def)

subsection \<open>Clear completed\<close>

text \<open>
  What the flow leaves when every request it issued has settled and all have succeeded:
  the todos whose identifier is not that of a completed todo.
\<close>

lemma removeCompletedTodos_leaves:
  assumes "answers settles (map id' (completedTodos s))"
    and "\<forall>x \<in> set settles. \<not> isRejected (snd x)"
  shows "todos (state (removeCompletedTodos settles s)) =
           filter (\<lambda>todo. id' todo \<notin> id' ` set (completedTodos s)) (todos s)"
proof (cases "completedTodos s = []")
  case True
  then show ?thesis by (simp add: removeCompletedTodos_def)
next
  case False
  obtain s1 rs where run: "allSettled removeTodo settles s = (s1, rs)"
    by (cases "allSettled removeTodo settles s")
  from allSettled_removeTodo_fulfilled [OF assms(2) run]
  have s1: "todos s1 = filter (\<lambda>todo. id' todo \<notin> fst ` set settles) (todos s)"
    and rs: "filter isRejected rs = []" by simp_all
  from assms(1) have "fst ` set settles = id' ` set (completedTodos s)"
    by (simp add: answers_set)
  with s1 False run rs show ?thesis
    by (simp add: removeCompletedTodos_def Let_def)
qed

text \<open>
  In a collection with unique identifiers, the todos that have the identifier of a
  completed todo are the completed todos.
\<close>

lemma unique_id_completed:
  assumes "distinct (map id' (todos s))" and "u \<in> set (todos s)"
  shows "id' u \<in> id' ` set (completedTodos s) \<longleftrightarrow> completed u"
proof
  assume "id' u \<in> id' ` set (completedTodos s)"
  then obtain t where t: "t \<in> set (todos s)" "completed t" "id' t = id' u"
    by (auto simp: completedTodos_def)
  from assms(1) have "inj_on id' (set (todos s))"
    by (simp add: distinct_map)
  with t assms(2) have "t = u" by (auto dest: inj_onD)
  with t show "completed u" by simp
next
  assume "completed u"
  with assms(2) show "id' u \<in> id' ` set (completedTodos s)"
    by (simp add: completedTodos_def)
qed

text \<open>
  Claim C5. In a collection (its identifiers are unique: that is the collection
  invariant of the data model), when every request issued by the clear-completed flow
  settles and all of them succeed, the collection that is left is the list of the
  uncompleted todos, each unchanged and in their order: exactly the completed todos are
  removed. The flow issues one delete request for each completed todo, hence none when
  there is no completed todo; it then leaves the state as it is.
\<close>

theorem removeCompletedTodos_all_succeed:
  "(distinct (map id' (todos s)) \<and>
    answers settles (map id' (completedTodos s)) \<and>
    (\<forall>x \<in> set settles. \<not> isRejected (snd x)) \<longrightarrow>
      todos (state (removeCompletedTodos settles s)) = uncompletedTodos s) \<and>
   (completedTodos s = [] \<longrightarrow>
      requests (removeCompletedTodos settles s) = [] \<and>
      state (removeCompletedTodos settles s) = s) \<and>
   requests (removeCompletedTodos settles s) =
     map (\<lambda>todo. DeleteTodo (id' todo)) (completedTodos s)"
proof (intro conjI impI)
  assume A: "distinct (map id' (todos s)) \<and>
    answers settles (map id' (completedTodos s)) \<and>
    (\<forall>x \<in> set settles. \<not> isRejected (snd x))"
  then have "todos (state (removeCompletedTodos settles s)) =
      filter (\<lambda>todo. id' todo \<notin> id' ` set (completedTodos s)) (todos s)"
    by (simp add: removeCompletedTodos_leaves)
  also have "\<dots> = filter (\<lambda>todo. \<not> completed todo) (todos s)"
  proof (rule filter_cong [OF refl])
    fix u assume "u \<in> set (todos s)"
    with A show "(id' u \<notin> id' ` set (completedTodos s)) = (\<not> completed u)"
      by (simp add: unique_id_completed)
  qed
  finally show "todos (state (removeCompletedTodos settles s)) = uncompletedTodos s"
    by (simp add: uncompletedTodos_def)
next
  assume "completedTodos s = []"
  then show "requests (removeCompletedTodos settles s) = []"
    by (simp add: removeCompletedTodos_def)
next
  assume "completedTodos s = []"
  then show "state (removeCompletedTodos settles s) = s"
    by (simp add: removeCompletedTodos_def)
next
  show "requests (removeCompletedTodos settles s) =
          map (\<lambda>todo. DeleteTodo (id' todo)) (completedTodos s)"
    by (simp add: removeCompletedTodos_def Let_def split: prod.splits)
qed

theorem removeCompletedTodos_all_succeed_witness:
  "distinct (map id' (todos (state_of [todo_a, todo_b, todo_c]))) \<and>
   answers [(3, Fulfilled () :: (nat, unit) settled), (2, Fulfilled ())]
     (map id' (completedTodos (state_of [todo_a, todo_b, todo_c]))) \<and>
   requests (removeCompletedTodos [(3, Fulfilled () :: (nat, unit) settled), (2, Fulfilled ())]
     (state_of [todo_a, todo_b, todo_c])) = [DeleteTodo 2, DeleteTodo 3] \<and>
   todos (state (removeCompletedTodos [(3, Fulfilled () :: (nat, unit) settled), (2, Fulfilled ())]
     (state_of [todo_a, todo_b, todo_c]))) = [todo_a] \<and>
   uncompletedTodos (state_of [todo_a, todo_b, todo_c]) = [todo_a] \<and>
   completedTodos (state_of [todo_a]) = [] \<and>
   requests (removeCompletedTodos ([] :: (int \<times> (nat, unit) settled) list)
     (state_of [todo_a])) = []"
  using removeCompletedTodos_all_succeed
      [of "state_of [todo_a, todo_b, todo_c]"
        "[(3, Fulfilled () :: (nat, unit) settled), (2, Fulfilled ())]"]
    removeCompletedTodos_all_succeed [of "state_of [todo_a]"
        "[] :: (int \<times> (nat, unit) settled) list"]
  by (simp add: answers_def removeCompletedTodos_def removeTodo_def completedTodos_def
      uncompletedTodos_def state_of_def todo_a_def todo_b_def todo_c_def Let_def)

subsection \<open>The error timer\<close>

lemmas timer_defs = run_def mounted_def setError_def elapse_def fire_def runCleanup_def
  clearTimeout_def errorEffect_def setTimeout_def

lemma timer_invariant_iff:
  "timer_invariant ts \<longleftrightarrow>
     (cleanup ts = None \<and> error (app ts) = [] \<and> timers ts = []) \<or>
     (\<exists>h t. cleanup ts = Some h \<and> error (app ts) \<noteq> [] \<and> timers ts = [(h, t)] \<and>
            now ts < t \<and> t \<le> now ts + 3000)"
  by (auto simp: timer_invariant_def split: option.splits list.splits)

lemma timer_invariant_mounted: "timer_invariant mounted"
  by (simp add: timer_invariant_def mounted_def)

text \<open>
  A call of \<open>setError\<close> that changes the text: the cleanup clears the one timeout that
  is pending, and the effect sets a new one if the new text is not empty.
\<close>

lemma setError_changed:
  assumes "timer_invariant ts" and "msg \<noteq> error (app ts)"
  shows "setError msg ts =
           (if msg = [] then ts\<lparr>app := (app ts)\<lparr>error := []\<rparr>, timers := [], cleanup := None\<rparr>
            else ts\<lparr>app := (app ts)\<lparr>error := msg\<rparr>,
                    timers := [(nextTimer ts, now ts + 3000)],
                    nextTimer := nextTimer ts + 1,
                    cleanup := Some (nextTimer ts)\<rparr>)"
  using assms
  by (auto simp: timer_invariant_iff setError_def runCleanup_def clearTimeout_def
      errorEffect_def setTimeout_def)

lemma timer_invariant_setError:
  assumes "timer_invariant ts"
  shows "timer_invariant (setError msg ts)"
proof (cases "msg = error (app ts)")
  case True
  with assms show ?thesis by (simp add: setError_def)
next
  case False
  with assms show ?thesis
    by (simp add: setError_changed) (simp add: timer_invariant_def)
qed

lemma elapse_none: "timers ts = [] \<Longrightarrow> elapse d ts = ts\<lparr>now := now ts + d\<rparr>"
  by (simp add: elapse_def)

lemma elapse_one:
  assumes "timer_invariant ts" and "timers ts = [(h, t)]"
  shows "elapse d ts =
           (if t \<le> now ts + d
            then ts\<lparr>app := (app ts)\<lparr>error := []\<rparr>, timers := [], cleanup := None,
                    now := now ts + d\<rparr>
            else ts\<lparr>now := now ts + d\<rparr>)"
  using assms
  by (auto simp: timer_invariant_iff elapse_def fire_def setError_def runCleanup_def
      clearTimeout_def errorEffect_def)

lemma timer_invariant_elapse:
  assumes "timer_invariant ts"
  shows "timer_invariant (elapse d ts)"
proof (cases "timers ts")
  case Nil
  with assms show ?thesis
    by (auto simp: elapse_none timer_invariant_iff)
next
  case (Cons x xs)
  with assms obtain h t where one: "timers ts = [(h, t)]"
    by (auto simp: timer_invariant_iff)
  with assms show ?thesis
    by (auto simp: elapse_one timer_invariant_iff)
qed

lemma timer_invariant_fold:
  "timer_invariant ts \<Longrightarrow> timer_invariant (fold step evs ts)"
proof (induction evs arbitrary: ts)
  case Nil
  then show ?case by simp
next
  case (Cons e evs)
  have "timer_invariant (step e ts)"
    using Cons.prems
    by (cases e) (simp_all add: timer_invariant_setError timer_invariant_elapse)
  then show ?case using Cons.IH by simp
qed

lemma timer_invariant_run: "timer_invariant (run evs)"
  by (simp add: run_def timer_invariant_fold timer_invariant_mounted)

lemma shown_until_timeout:
  assumes inv: "timer_invariant ts" and changed: "msg \<noteq> error (app ts)"
    and msg: "msg \<noteq> []"
  shows "error (app (elapse d (setError msg ts))) = (if d < 3000 then msg else [])"
proof -
  let ?ts = "setError msg ts"
  have inv': "timer_invariant ?ts" using inv by (rule timer_invariant_setError)
  have ts': "timers ?ts = [(nextTimer ts, now ts + 3000)]" "now ?ts = now ts"
    "error (app ?ts) = msg"
    using inv changed msg by (simp_all add: setError_changed)
  from elapse_one [OF inv' ts'(1)] ts'(2,3) show ?thesis
    by (simp split: if_splits)
qed

text \<open>
  Claim C7, as stated. An update fails and sets its message; 2000 ms later a second
  update fails and sets the same message, which is the newer error. The dependency of
  the effect has not changed, so neither the cleanup nor the effect runs, the timeout of
  the first message stays, and 1000 ms after the newer error the message is cleared.
\<close>

theorem setError_same_text_counterexample:
  "error (app (run [SetError (ascii ''Unable to update a todo''), Elapse 2000])) =
     ascii ''Unable to update a todo'' \<and>
   timers (run [SetError (ascii ''Unable to update a todo''), Elapse 2000,
     SetError (ascii ''Unable to update a todo'')]) = [(0, 3000)] \<and>
   error (app (run [SetError (ascii ''Unable to update a todo''), Elapse 2000,
     SetError (ascii ''Unable to update a todo''), Elapse 999])) =
     ascii ''Unable to update a todo'' \<and>
   error (app (run [SetError (ascii ''Unable to update a todo''), Elapse 2000,
     SetError (ascii ''Unable to update a todo''), Elapse 1000])) = []"
  by (simp add: timer_defs ascii_def)

text \<open>
  Claim C7, amended. In every state the component reaches by calls of \<open>setError\<close> and
  the passing of time: when \<open>setError\<close> is given a text other than the one shown, that
  text replaces the one shown and the timeout that was pending is cleared; if the new
  text is empty no timeout is pending afterwards, and if it is not empty exactly one is,
  set 3000 ms ahead, the text stays for every shorter time in which no flow sets the
  error, and it is cleared when 3000 ms have passed. When \<open>setError\<close> is given the
  text already shown, nothing changes and the delay does not restart. At all times the
  only timeout pending is that of the text shown, so a timeout never clears a text other
  than the one it was set for.
\<close>

theorem setError_restarts_timer:
  "(msg \<noteq> error (app (run evs)) \<longrightarrow>
      error (app (setError msg (run evs))) = msg \<and>
      timers (setError msg (run evs)) =
        (if msg = [] then [] else [(nextTimer (run evs), now (run evs) + 3000)]) \<and>
      (msg \<noteq> [] \<longrightarrow>
         (\<forall>d < 3000. error (app (elapse d (setError msg (run evs)))) = msg) \<and>
         error (app (elapse 3000 (setError msg (run evs)))) = [])) \<and>
   setError (error (app (run evs))) (run evs) = run evs \<and>
   timer_invariant (run evs)"
proof (intro conjI impI allI)
  assume "msg \<noteq> error (app (run evs))"
  then show "error (app (setError msg (run evs))) = msg"
    by (simp add: setError_changed timer_invariant_run)
next
  assume "msg \<noteq> error (app (run evs))"
  then show "timers (setError msg (run evs)) =
        (if msg = [] then [] else [(nextTimer (run evs), now (run evs) + 3000)])"
    by (simp add: setError_changed timer_invariant_run)
next
  fix d :: nat
  assume "msg \<noteq> error (app (run evs))" "msg \<noteq> []" "d < 3000"
  then show "error (app (elapse d (setError msg (run evs)))) = msg"
    by (simp add: shown_until_timeout timer_invariant_run)
next
  assume "msg \<noteq> error (app (run evs))" "msg \<noteq> []"
  then show "error (app (elapse 3000 (setError msg (run evs)))) = []"
    by (simp add: shown_until_timeout timer_invariant_run)
next
  show "setError (error (app (run evs))) (run evs) = run evs"
    by (simp add: setError_def)
next
  show "timer_invariant (run evs)" by (rule timer_invariant_run)
qed

text \<open>
  The first message is set at 0 with its timeout for 3000; a successful add clears the
  message at 1000 and with it the timeout; a second message is set at 2000 with its
  timeout for 5000. At 3000, when the first timeout would have fired, the second
  message is still shown; it is cleared at 5000.
\<close>

theorem setError_restarts_timer_witness:
  "ascii ''Unable to add a todo'' \<noteq> [] \<and>
   ascii ''Unable to add a todo'' \<noteq>
     error (app (run [SetError (ascii ''Unable to update a todo''), Elapse 1000, SetError [],
       Elapse 1000])) \<and>
   [] \<noteq> error (app (run [SetError (ascii ''Unable to update a todo''), Elapse 1000])) \<and>
   timers (run [SetError (ascii ''Unable to update a todo''), Elapse 1000]) = [(0, 3000)] \<and>
   timers (setError [] (run [SetError (ascii ''Unable to update a todo''), Elapse 1000])) =
     [] \<and>
   timers (setError (ascii ''Unable to add a todo'')
     (run [SetError (ascii ''Unable to update a todo''), Elapse 1000, SetError [],
       Elapse 1000])) = [(1, 5000)] \<and>
   error (app (elapse 1000 (setError (ascii ''Unable to add a todo'')
     (run [SetError (ascii ''Unable to update a todo''), Elapse 1000, SetError [],
       Elapse 1000])))) = ascii ''Unable to add a todo'' \<and>
   error (app (elapse 3000 (setError (ascii ''Unable to add a todo'')
     (run [SetError (ascii ''Unable to update a todo''), Elapse 1000, SetError [],
       Elapse 1000])))) = []"
  using setError_restarts_timer [of "ascii ''Unable to add a todo''"
      "[SetError (ascii ''Unable to update a todo''), Elapse 1000, SetError [], Elapse 1000]"]
    setError_restarts_timer [of "[]"
      "[SetError (ascii ''Unable to update a todo''), Elapse 1000]"]
  by (simp add: timer_defs ascii_def)

end
